theory Spec2Isabelle
  imports Complex_Main "HOL-Library.Multiset"
begin

section \<open>Wallet risk scoring: the Scorer of \<open>src/main.py\<close>\<close>

text \<open>
  This theory embeds \<open>calculate_risk_score\<close> of \<open>src/main.py\<close> and settles the
  properties claimed for it.

  Numbers. The source computes on NumPy \<open>float64\<close> arrays. The embedding computes on
  exact rationals (\<open>rat\<close>): every arithmetic step of the source is kept, in the source's
  order, but without rounding, overflow or NaN. The weights \<open>-0.2\<close>, \<open>0.3\<close>, ... are the
  rationals the decimal literals denote. Rounding makes the code's numbers differ from
  the embedding's in their last bits: two raw scores that are equal as rationals may
  differ in \<open>float64\<close> (and the branch on \<open>max_score == min_score\<close> with them), and a
  rescaled score next to an integer may be cut to the integer below. So the exact score
  of a wallet is not a property this embedding can settle; the theorems here are about
  failure, shape, range, order and the frame, and none of them rests on such a value.

  Libraries. \<open>MinMaxScaler\<close>, \<open>np.clip\<close>, \<open>astype(int)\<close> and the frame operations are
  library calls; they are embedded as their documentation defines them:
  \<^item> \<open>MinMaxScaler().fit_transform(X)\<close> raises \<open>ValueError\<close> on an array with no
    sample; otherwise, for every column, \<open>data_range = data_max - data_min\<close>,
    \<open>scale_ = 1 / _handle_zeros_in_scale(data_range)\<close> (a zero range is replaced by
    \<open>1\<close>), \<open>min_ = 0 - data_min * scale_\<close>, and the column becomes
    \<open>X * scale_ + min_\<close>. The library is not part of the repository; recent versions
    of it also replace a range below ten machine epsilons, which exact arithmetic has
    no counterpart for. The embedding replaces the zero range only;
  \<^item> \<open>np.clip(a, lo, hi)\<close> is \<open>minimum(maximum(a, lo), hi)\<close>;
  \<^item> \<open>astype(int)\<close> drops the fractional part (rounds toward zero).
\<close>

subsection \<open>Data\<close>

text \<open>A row of \<open>features_df\<close>: the dictionary \<open>extract_features\<close> returns.\<close>

record feature_record =
  wallet_id :: string
  borrow_count :: rat
  repayment_ratio :: rat
  collateral_ratio :: rat
  liquidation_count :: rat
  total_volume :: rat
  activity_level :: rat
  no_compound_activity :: rat

text \<open>
  The frame \<open>features_df\<close>: its rows, and the column \<open>"score"\<close>, which a frame built by
  \<open>main\<close> does not have (\<open>None\<close>) and \<open>calculate_risk_score\<close> assigns.
\<close>

record dataframe =
  rows :: "feature_record list"
  score :: "int list option"

text \<open>The names in \<open>feature_columns\<close> (and the keys of \<open>weights\<close>).\<close>

datatype column =
  Borrow_count | Repayment_ratio | Collateral_ratio | Liquidation_count
  | Total_volume | Activity_level | No_compound_activity

datatype py_error = ValueError

text \<open>A row of the result \<open>features_df[["wallet_id", "score"]]\<close>.\<close>

type_synonym score_record = "string \<times> int"

subsection \<open>Frame access\<close>

fun cell :: "column \<Rightarrow> feature_record \<Rightarrow> rat" where
  "cell Borrow_count r = borrow_count r"
| "cell Repayment_ratio r = repayment_ratio r"
| "cell Collateral_ratio r = collateral_ratio r"
| "cell Liquidation_count r = liquidation_count r"
| "cell Total_volume r = total_volume r"
| "cell Activity_level r = activity_level r"
| "cell No_compound_activity r = no_compound_activity r"

text \<open>\<open>features_df[c]\<close>, one value per row.\<close>

definition column_values :: "dataframe \<Rightarrow> column \<Rightarrow> rat list" where
  "column_values df c = map (cell c) (rows df)"

subsection \<open>NumPy reductions\<close>

text \<open>
  \<open>min\<close> and \<open>max\<close> of an array. They are reached with a non-empty array only: the
  scaler has refused the empty batch before.
\<close>

fun amin :: "rat list \<Rightarrow> rat" where
  "amin (x # xs) = fold min xs x"

fun amax :: "rat list \<Rightarrow> rat" where
  "amax (x # xs) = fold max xs x"

definition clip :: "rat \<Rightarrow> rat \<Rightarrow> rat \<Rightarrow> rat" where
  "clip lo hi x = min (max x lo) hi"

definition astype_int :: "rat \<Rightarrow> int" where
  "astype_int x = (if 0 \<le> x then \<lfloor>x\<rfloor> else \<lceil>x\<rceil>)"

subsection \<open>MinMaxScaler\<close>

text \<open>
  The guard against a zero range. HOL's division is total (\<open>x / 0 = 0\<close>), so nothing
  proved below can tell this guard from its absence: what the scaler does to a constant
  column is taken from the library's documentation, not established here.
\<close>

definition handle_zeros_in_scale :: "rat \<Rightarrow> rat" where
  "handle_zeros_in_scale s = (if s = 0 then 1 else s)"

definition scale_column :: "rat list \<Rightarrow> rat list" where
  "scale_column xs =
     (let data_min = amin xs;
          data_max = amax xs;
          data_range = data_max - data_min;
          scale = 1 / handle_zeros_in_scale data_range;
          min' = 0 - data_min * scale
      in map (\<lambda>v. v * scale + min') xs)"

text \<open>
  \<open>scaler.fit_transform(features_df[feature_columns])\<close>, wrapped into \<open>normalized_df\<close>:
  \<open>feature_columns\<close> lists all seven columns, so the result gives every column name its
  scaled column.
\<close>

definition fit_transform :: "dataframe \<Rightarrow> py_error + (column \<Rightarrow> rat list)" where
  "fit_transform df =
     (if rows df = [] then Inl ValueError
      else Inr (\<lambda>c. scale_column (column_values df c)))"

subsection \<open>The Scorer\<close>

definition weights :: "(column \<times> rat) list" where
  "weights =
     [(Borrow_count, - (2 / 10)),
      (Repayment_ratio, 3 / 10),
      (Collateral_ratio, 3 / 10),
      (Liquidation_count, - (25 / 100)),
      (Total_volume, 2 / 10),
      (Activity_level, 25 / 100),
      (No_compound_activity, - (1 / 10))]"

text \<open>
  \<open>scores = np.zeros(n)\<close>, then \<open>scores += normalized_df[feature] * weight\<close> for every
  item of \<open>weights\<close>, in the dictionary's order.
\<close>

definition weighted_scores :: "nat \<Rightarrow> (column \<Rightarrow> rat list) \<Rightarrow> rat list" where
  "weighted_scores n normalized_df =
     fold (\<lambda>(feature, weight) scores.
             map2 (+) scores (map (\<lambda>v. v * weight) (normalized_df feature)))
          weights (replicate n 0)"

text \<open>The branch on \<open>max_score == min_score\<close>.\<close>

definition rescale :: "rat list \<Rightarrow> rat list" where
  "rescale scores =
     (let min_score = amin scores;
          max_score = amax scores
      in if max_score = min_score then map (\<lambda>one. one * 500) (replicate (length scores) 1)
         else map (\<lambda>s. (s - min_score) / (max_score - min_score) * 900 + 100) scores)"

text \<open>
  \<open>calculate_risk_score\<close>. It assigns the column \<open>"score"\<close> of the frame it was given, so
  the frame after the call is part of the result.
\<close>

definition calculate_risk_score ::
  "dataframe \<Rightarrow> py_error + (score_record list \<times> dataframe)" where
  "calculate_risk_score features_df =
     (case fit_transform features_df of
        Inl e \<Rightarrow> Inl e
      | Inr normalized_df \<Rightarrow>
          let scores = weighted_scores (length (rows features_df)) normalized_df;
              scores = rescale scores;
              scores = map (clip 0 1000) scores;
              column = map astype_int scores;
              features_df = features_df\<lparr>score := Some column\<rparr>
          in Inr (zip (map wallet_id (rows features_df)) column, features_df))"

text \<open>
  The array \<open>scores\<close> after the weighted loop and before the rescaling: the raw scores
  of the batch.
\<close>

definition raw_scores :: "dataframe \<Rightarrow> rat list" where
  "raw_scores df =
     weighted_scores (length (rows df)) (\<lambda>c. scale_column (column_values df c))"

subsection \<open>The specification's formulas\<close>

text \<open>
  The three steps as the specification words them, over the batch as a set of records:
  \<open>(v - min) / (max - min)\<close> or \<open>0\<close> for a column, the weighted sum of the normalized
  values, and \<open>(raw - min_raw) / (max_raw - min_raw) * 900 + 100\<close> or \<open>500\<close>, cut to
  the integer below. They are compared with the code in \<open>calculate_risk_score_spec\<close>.
\<close>

definition spec_normalize :: "rat set \<Rightarrow> rat \<Rightarrow> rat" where
  "spec_normalize V v = (if Max V = Min V then 0 else (v - Min V) / (Max V - Min V))"

definition spec_raw :: "feature_record set \<Rightarrow> feature_record \<Rightarrow> rat" where
  "spec_raw B r = (\<Sum>(c, w) \<leftarrow> weights. spec_normalize (cell c ` B) (cell c r) * w)"

definition spec_rescale :: "rat set \<Rightarrow> rat \<Rightarrow> rat" where
  "spec_rescale R s =
     (if Max R = Min R then 500 else (s - Min R) / (Max R - Min R) * 900 + 100)"

definition spec_score :: "feature_record set \<Rightarrow> feature_record \<Rightarrow> int" where
  "spec_score B r = \<lfloor>spec_rescale (spec_raw B ` B) (spec_raw B r)\<rfloor>"

subsection \<open>Example batches\<close>

definition wallet_a :: feature_record where
  "wallet_a =
     \<lparr>wallet_id = ''0xaa'', borrow_count = 0, repayment_ratio = 1, collateral_ratio = 1,
      liquidation_count = 0, total_volume = 3, activity_level = 1 / 2,
      no_compound_activity = 1\<rparr>"

definition wallet_b :: feature_record where
  "wallet_b =
     \<lparr>wallet_id = ''0xbb'', borrow_count = 5, repayment_ratio = 1 / 2,
      collateral_ratio = 3 / 2, liquidation_count = 1, total_volume = 10,
      activity_level = 9 / 10, no_compound_activity = 0\<rparr>"

definition wallet_c :: feature_record where
  "wallet_c =
     \<lparr>wallet_id = ''0xcc'', borrow_count = 2, repayment_ratio = 1 / 2,
      collateral_ratio = 3 / 2, liquidation_count = 0, total_volume = 10,
      activity_level = 9 / 10, no_compound_activity = 0\<rparr>"

text \<open>A record below zero in every feature.\<close>

definition wallet_neg :: feature_record where
  "wallet_neg =
     \<lparr>wallet_id = ''0xee'', borrow_count = - 1, repayment_ratio = - (1 / 2),
      collateral_ratio = - 3, liquidation_count = - 2, total_volume = - 10,
      activity_level = - (1 / 4), no_compound_activity = - 1\<rparr>"

text \<open>\<open>wallet_b\<close> with two more liquidations, under another name.\<close>

definition wallet_d :: feature_record where
  "wallet_d = wallet_b\<lparr>wallet_id := ''0xdd'', liquidation_count := 3\<rparr>"

definition frame :: "feature_record list \<Rightarrow> dataframe" where
  "frame rs = \<lparr>rows = rs, score = None\<rparr>"

text \<open>Two records that carry the same \<open>wallet_id\<close>.\<close>

definition dup_batch :: dataframe where
  "dup_batch = frame [wallet_a, wallet_b\<lparr>wallet_id := ''0xaa''\<rparr>]"

section \<open>The code against the specification's formulas\<close>

lemmas scorer_defs =
  calculate_risk_score_def fit_transform_def column_values_def scale_column_def
  handle_zeros_in_scale_def weighted_scores_def weights_def rescale_def clip_def
  astype_int_def raw_scores_def Let_def

lemmas example_defs =
  frame_def dup_batch_def wallet_a_def wallet_b_def wallet_c_def wallet_neg_def
  wallet_d_def

lemma amin_Min: "xs \<noteq> [] \<Longrightarrow> amin xs = Min (set xs)"
proof (cases xs)
  case (Cons a l)
  then show ?thesis using Min.set_eq_fold [of a l] by simp
qed simp

lemma amax_Max: "xs \<noteq> [] \<Longrightarrow> amax xs = Max (set xs)"
proof (cases xs)
  case (Cons a l)
  then show ?thesis using Max.set_eq_fold [of a l] by simp
qed simp

lemma scale_column_spec:
  assumes "xs \<noteq> []"
  shows "scale_column xs = map (spec_normalize (set xs)) xs"
proof -
  let ?lo = "Min (set xs)" and ?hi = "Max (set xs)"
  have "v * (1 / handle_zeros_in_scale (?hi - ?lo))
          + (0 - ?lo * (1 / handle_zeros_in_scale (?hi - ?lo)))
        = spec_normalize (set xs) v" if "v \<in> set xs" for v
  proof (cases "?hi = ?lo")
    case True
    have "?lo \<le> v" "v \<le> ?hi" using that by simp_all
    with True have "v = ?lo" by simp
    with True show ?thesis by (simp add: handle_zeros_in_scale_def spec_normalize_def)
  next
    case False
    then show ?thesis
      by (simp add: handle_zeros_in_scale_def spec_normalize_def diff_divide_distrib)
  qed
  then show ?thesis
    using assms by (simp add: scale_column_def amin_Min amax_Max Let_def)
qed

lemma map2_add_map: "map2 (+) (map f xs) (map g xs) = map (\<lambda>x. f x + g x) xs"
  by (induction xs) simp_all

lemma zip_map_same: "zip (map f xs) (map g xs) = map (\<lambda>x. (f x, g x)) xs"
  by (induction xs) simp_all

lemma weighted_scores_map:
  "weighted_scores (length rs) (\<lambda>c. map (f c) rs)
   = map (\<lambda>r. \<Sum>(c, w) \<leftarrow> weights. f c r * w) rs"
proof -
  have z: "replicate (length rs) (0::rat) = map (\<lambda>r. 0) rs"
    by (simp add: map_replicate_const)
  show ?thesis
    unfolding weighted_scores_def weights_def z
    by (simp add: map2_add_map o_def add.assoc)
qed

lemma rescale_spec:
  assumes "xs \<noteq> []"
  shows "rescale xs = map (spec_rescale (set xs)) xs"
proof -
  have "map (\<lambda>one. one * 500) (replicate (length xs) (1::rat)) = map (\<lambda>s. 500) xs"
    by (simp add: map_replicate_const)
  then show ?thesis
    using assms by (simp add: rescale_def amin_Min amax_Max Let_def spec_rescale_def)
qed

lemma unit_to_band:
  fixes t :: rat
  assumes "0 \<le> t" "t \<le> 1"
  shows "100 \<le> t * 900 + 100 \<and> t * 900 + 100 \<le> 1000"
  using assms by linarith

lemma spec_rescale_range:
  assumes "finite R" "s \<in> R"
  shows "100 \<le> spec_rescale R s \<and> spec_rescale R s \<le> 1000"
proof (cases "Max R = Min R")
  case True
  then show ?thesis by (simp add: spec_rescale_def)
next
  case False
  have lo: "Min R \<le> s" and hi: "s \<le> Max R" using assms by simp_all
  then have pos: "0 < Max R - Min R" using False by simp
  have "0 \<le> (s - Min R) / (Max R - Min R)" using lo pos by simp
  moreover have "(s - Min R) / (Max R - Min R) \<le> 1" using hi pos by simp
  ultimately have "100 \<le> (s - Min R) / (Max R - Min R) * 900 + 100
      \<and> (s - Min R) / (Max R - Min R) * 900 + 100 \<le> 1000"
    by (rule unit_to_band)
  then show ?thesis using False unfolding spec_rescale_def by (simp only: if_False)
qed

lemma clip_astype_id:
  assumes "100 \<le> x" "x \<le> 1000"
  shows "clip 0 1000 x = x" "astype_int (clip 0 1000 x) = \<lfloor>x\<rfloor>"
  using assms by (simp_all add: clip_def astype_int_def)

lemma normalized_column_spec:
  assumes "rows df \<noteq> []"
  shows "scale_column (column_values df c)
         = map (\<lambda>r. spec_normalize (cell c ` set (rows df)) (cell c r)) (rows df)"
  using assms scale_column_spec [of "column_values df c"]
  by (simp add: column_values_def o_def)

lemma raw_scores_spec:
  assumes "rows df \<noteq> []"
  shows "raw_scores df = map (spec_raw (set (rows df))) (rows df)"
proof -
  have "(\<lambda>c. scale_column (column_values df c))
        = (\<lambda>c. map (\<lambda>r. spec_normalize (cell c ` set (rows df)) (cell c r)) (rows df))"
    using assms by (simp add: normalized_column_spec)
  then show ?thesis
    unfolding raw_scores_def spec_raw_def
    by (simp only: weighted_scores_map)
qed

lemma set_raw_scores:
  assumes "rows df \<noteq> []"
  shows "set (raw_scores df) = spec_raw (set (rows df)) ` set (rows df)"
  using assms by (simp add: raw_scores_spec)

lemma final_column_spec:
  assumes "xs \<noteq> []"
  shows "map astype_int (map (clip 0 1000) (rescale xs))
         = map (\<lambda>s. \<lfloor>spec_rescale (set xs) s\<rfloor>) xs"
proof -
  have "astype_int (clip 0 1000 (spec_rescale (set xs) s)) = \<lfloor>spec_rescale (set xs) s\<rfloor>"
    if "s \<in> set xs" for s
    using spec_rescale_range [of "set xs" s] that by (intro clip_astype_id) simp_all
  then show ?thesis using assms by (simp add: rescale_spec)
qed

lemma calculate_risk_score_raw:
  assumes "rows df \<noteq> []"
  shows "calculate_risk_score df =
           (let column = map (\<lambda>s. \<lfloor>spec_rescale (set (raw_scores df)) s\<rfloor>) (raw_scores df)
            in Inr (zip (map wallet_id (rows df)) column, df\<lparr>score := Some column\<rparr>))"
proof -
  have ne: "raw_scores df \<noteq> []" using assms by (simp add: raw_scores_spec)
  show ?thesis
    using assms final_column_spec [OF ne]
    by (simp add: calculate_risk_score_def fit_transform_def Let_def raw_scores_def)
qed

text \<open>
  The refinement: on a batch with at least one record the code returns, for every
  record in order, the score of the specification's formulas, and stores the same
  scores in the column \<open>"score"\<close> of the frame it was given.
\<close>

lemma calculate_risk_score_spec:
  assumes "rows df \<noteq> []"
  shows "calculate_risk_score df =
           Inr (map (\<lambda>r. (wallet_id r, spec_score (set (rows df)) r)) (rows df),
                df\<lparr>score := Some (map (spec_score (set (rows df))) (rows df))\<rparr>)"
  using assms
  by (simp add: calculate_risk_score_raw Let_def set_raw_scores raw_scores_spec
      zip_map_same o_def spec_score_def)

lemma calculate_risk_score_empty:
  assumes "rows df = []"
  shows "calculate_risk_score df = Inl ValueError"
  using assms by (simp add: calculate_risk_score_def fit_transform_def)

lemma spec_score_range:
  assumes "finite B" "r \<in> B"
  shows "100 \<le> spec_score B r \<and> spec_score B r \<le> 1000"
proof -
  have "100 \<le> spec_rescale (spec_raw B ` B) (spec_raw B r)
      \<and> spec_rescale (spec_raw B ` B) (spec_raw B r) \<le> 1000"
    using assms by (intro spec_rescale_range) simp_all
  then show ?thesis
    unfolding spec_score_def by (simp add: le_floor_iff floor_le_iff)
qed

section \<open>Claims\<close>

subsection \<open>C8: output shape and range\<close>

text \<open>
  Claim C8. For every batch of \<open>N \<ge> 1\<close> records the Scorer returns exactly \<open>N\<close> score
  records; they carry the input's \<open>wallet_id\<close>s, record by record (so the two sets of
  identifiers are equal); and every score is an integer from \<open>0\<close> to \<open>1000\<close>.
\<close>

theorem scorer_output_shape:
  assumes "rows df \<noteq> []"
  shows "\<exists>out df'. calculate_risk_score df = Inr (out, df')
           \<and> length out = length (rows df)
           \<and> map fst out = map wallet_id (rows df)
           \<and> fst ` set out = wallet_id ` set (rows df)
           \<and> (\<forall>p \<in> set out. 0 \<le> snd p \<and> snd p \<le> 1000)"
proof -
  let ?B = "set (rows df)"
  let ?out = "map (\<lambda>r. (wallet_id r, spec_score ?B r)) (rows df)"
  have bound: "0 \<le> snd p \<and> snd p \<le> 1000" if "p \<in> set ?out" for p
  proof -
    from that obtain r where r: "r \<in> ?B" and p: "p = (wallet_id r, spec_score ?B r)"
      by auto
    have "100 \<le> spec_score ?B r \<and> spec_score ?B r \<le> 1000"
      using r by (intro spec_score_range) simp_all
    then show ?thesis using p by simp
  qed
  have "map fst ?out = map wallet_id (rows df)" by (simp add: o_def)
  moreover have "fst ` set ?out = wallet_id ` ?B" by (simp add: image_image)
  moreover have "length ?out = length (rows df)" by simp
  ultimately show ?thesis
    using calculate_risk_score_spec [OF assms] bound by blast
qed

text \<open>C8 on the batch of \<open>wallet_a\<close>, \<open>wallet_b\<close> and \<open>wallet_c\<close>.\<close>

theorem scorer_output_shape_witness:
  "rows (frame [wallet_a, wallet_b, wallet_c]) \<noteq> []
   \<and> (\<exists>out df'. calculate_risk_score (frame [wallet_a, wallet_b, wallet_c]) = Inr (out, df')
          \<and> length out = 3
          \<and> map fst out = [''0xaa'', ''0xbb'', ''0xcc''])"
proof -
  have h: "rows (frame [wallet_a, wallet_b, wallet_c]) \<noteq> []" by (simp add: frame_def)
  from scorer_output_shape [OF h] obtain out df' where
    run: "calculate_risk_score (frame [wallet_a, wallet_b, wallet_c]) = Inr (out, df')" and
    len: "length out = length (rows (frame [wallet_a, wallet_b, wallet_c]))" and
    ids: "map fst out = map wallet_id (rows (frame [wallet_a, wallet_b, wallet_c]))"
    by blast
  have three: "length out = 3" using len by (simp add: frame_def)
  have names: "map fst out = [''0xaa'', ''0xbb'', ''0xcc'']"
    using ids by (simp add: example_defs)
  have "\<exists>out df'. calculate_risk_score (frame [wallet_a, wallet_b, wallet_c]) = Inr (out, df')
          \<and> length out = 3 \<and> map fst out = [''0xaa'', ''0xbb'', ''0xcc'']"
    by (rule exI [of _ out], rule exI [of _ df']) (simp add: run three names)
  with h show ?thesis by (rule conjI)
qed

subsection \<open>C3: the empty batch is refused, every other batch is scored\<close>

text \<open>
  Claim C3. A batch with no record makes the Scorer fail: the scaler raises
  \<open>ValueError\<close>, the error the specification files under InvalidInput. Every batch
  with at least one record is scored, whatever its values: a single record, records
  that are all alike, features below zero.
\<close>

theorem empty_batch_rejected_others_scored:
  "calculate_risk_score \<lparr>rows = [], score = s\<rparr> = Inl ValueError
   \<and> (rows df \<noteq> [] \<longrightarrow> (\<exists>out df'. calculate_risk_score df = Inr (out, df')))"
  by (simp add: calculate_risk_score_empty calculate_risk_score_spec)

text \<open>C3 on one record below zero in every feature, and on two copies of it.\<close>

theorem empty_batch_rejected_others_scored_witness:
  "calculate_risk_score \<lparr>rows = [], score = None\<rparr> = Inl ValueError
   \<and> rows (frame [wallet_neg]) \<noteq> []
   \<and> (\<exists>out df'. calculate_risk_score (frame [wallet_neg]) = Inr (out, df'))
   \<and> rows (frame [wallet_neg, wallet_neg]) \<noteq> []
   \<and> (\<exists>out df'. calculate_risk_score (frame [wallet_neg, wallet_neg]) = Inr (out, df'))"
  using empty_batch_rejected_others_scored [of None "frame [wallet_neg]"]
    empty_batch_rejected_others_scored [of None "frame [wallet_neg, wallet_neg]"]
  by (simp add: frame_def)

subsection \<open>C2: two records with one \<open>wallet_id\<close>\<close>

text \<open>
  Claim C2 says a batch with two records of the same \<open>wallet_id\<close> fails with
  InvalidInput and gives no output. The code never compares identifiers: on
  \<open>dup_batch\<close> it returns two score records, both named \<open>0xaa\<close>.
\<close>

theorem duplicate_wallet_id_counterexample:
  "\<not> distinct (map wallet_id (rows dup_batch))
   \<and> calculate_risk_score dup_batch
       = Inr ([(''0xaa'', 100), (''0xaa'', 1000)], dup_batch\<lparr>score := Some [100, 1000]\<rparr>)"
  by (simp add: scorer_defs example_defs)

text \<open>
  Claim C2 as amended. A batch holding two records with the same \<open>wallet_id\<close> is
  scored like any other: the Scorer returns one score record for every input record,
  in order and under the input's identifiers, the repeated one included.
\<close>

theorem duplicate_wallet_id_scored:
  assumes "\<not> distinct (map wallet_id (rows df))"
  shows "\<exists>out df'. calculate_risk_score df = Inr (out, df')
           \<and> map fst out = map wallet_id (rows df)"
proof -
  have ne: "rows df \<noteq> []" using assms by auto
  show ?thesis
    using calculate_risk_score_spec [OF ne] by (simp add: o_def)
qed

text \<open>The amended C2 on \<open>dup_batch\<close>.\<close>

theorem duplicate_wallet_id_scored_witness:
  "\<not> distinct (map wallet_id (rows dup_batch))
   \<and> (\<exists>out df'. calculate_risk_score dup_batch = Inr (out, df')
         \<and> map fst out = [''0xaa'', ''0xaa''])"
proof -
  have h: "\<not> distinct (map wallet_id (rows dup_batch))" by (simp add: example_defs)
  show ?thesis
    using h duplicate_wallet_id_scored [OF h] by (simp add: example_defs)
qed

subsection \<open>C9: the input frame\<close>

text \<open>
  Claim C9 says the input collection is unchanged by a run. The code assigns
  \<open>features_df["score"]\<close>: the frame of \<open>wallet_a\<close> alone has no such column before the
  call and holds \<open>[500]\<close> in it afterwards.
\<close>

theorem input_frame_mutated_counterexample:
  "calculate_risk_score (frame [wallet_a])
     = Inr ([(''0xaa'', 500)], \<lparr>rows = [wallet_a], score = Some [500]\<rparr>)
   \<and> \<lparr>rows = [wallet_a], score = Some [500]\<rparr> \<noteq> frame [wallet_a]"
  by (simp add: scorer_defs example_defs)

text \<open>
  Claim C9 as amended. A run leaves every input record as it was (its \<open>wallet_id\<close>
  and its seven features, and the order and number of the rows), and it changes the
  input frame in one place only: the column \<open>"score"\<close> is set to the scores the run
  returns.
\<close>

theorem input_rows_kept_score_column_assigned:
  assumes "calculate_risk_score df = Inr (out, df')"
  shows "rows df' = rows df \<and> score df' = Some (map snd out)
         \<and> df' = df\<lparr>score := Some (map snd out)\<rparr>"
proof -
  have ne: "rows df \<noteq> []"
    using assms calculate_risk_score_empty [of df] by auto
  show ?thesis
    using assms calculate_risk_score_spec [OF ne] by (auto simp: o_def)
qed

text \<open>The amended C9 on the batch of \<open>wallet_a\<close> and \<open>wallet_b\<close>.\<close>

theorem input_rows_kept_score_column_assigned_witness:
  "calculate_risk_score (frame [wallet_a, wallet_b])
     = Inr ([(''0xaa'', 100), (''0xbb'', 1000)],
            \<lparr>rows = [wallet_a, wallet_b], score = Some [100, 1000]\<rparr>)
   \<and> rows \<lparr>rows = [wallet_a, wallet_b], score = Some [100, 1000]\<rparr> = rows (frame [wallet_a, wallet_b])
   \<and> score \<lparr>rows = [wallet_a, wallet_b], score = Some [100, 1000]\<rparr>
       = Some (map snd [(''0xaa'', 100), (''0xbb'', 1000::int)])"
proof -
  have h: "calculate_risk_score (frame [wallet_a, wallet_b])
     = Inr ([(''0xaa'', 100), (''0xbb'', 1000)],
            \<lparr>rows = [wallet_a, wallet_b], score = Some [100, 1000]\<rparr>)"
    by (simp add: scorer_defs example_defs)
  show ?thesis
    using h input_rows_kept_score_column_assigned [OF h] by simp
qed

subsection \<open>C5: records that are all alike\<close>

lemma spec_normalize_singleton: "spec_normalize {v} x = 0"
  by (simp add: spec_normalize_def)

lemma spec_raw_constant_columns:
  assumes "\<And>c. \<exists>v. cell c ` B = {v}"
  shows "spec_raw B r = 0"
proof -
  have "spec_normalize (cell c ` B) x = 0" for c x
  proof -
    from assms [of c] obtain v where "cell c ` B = {v}" ..
    then show ?thesis by (simp only: spec_normalize_singleton)
  qed
  then show ?thesis by (simp add: spec_raw_def weights_def)
qed

lemma spec_score_constant_columns:
  assumes "B \<noteq> {}" and "\<And>c. \<exists>v. cell c ` B = {v}"
  shows "spec_score B r = 500"
proof -
  have "spec_raw B r' = 0" for r'
    using assms(2) by (rule spec_raw_constant_columns)
  then have "spec_raw B ` B = {0}"
    using assms(1) by (simp add: image_constant_conv)
  then show ?thesis
    by (simp add: spec_score_def spec_rescale_def)
qed

lemma identical_rows_columns:
  assumes ne: "rows df \<noteq> []"
    and same: "\<forall>r \<in> set (rows df). \<forall>c. cell c r = cell c (hd (rows df))"
  shows "\<exists>v. cell c ` set (rows df) = {v}"
proof -
  have "cell c ` set (rows df) = (\<lambda>r. cell c (hd (rows df))) ` set (rows df)"
    using same by (intro image_cong) simp_all
  also have "\<dots> = {cell c (hd (rows df))}"
    using ne by (simp add: image_constant_conv)
  finally show ?thesis ..
qed

text \<open>
  Claim C5. When all records of a batch agree on all seven features, every wallet gets
  the score \<open>500\<close>; in particular a batch of one record gives that record \<open>500\<close>.
\<close>

theorem identical_records_score_500:
  "(rows df \<noteq> [] \<and> (\<forall>r \<in> set (rows df). \<forall>c. cell c r = cell c (hd (rows df)))
      \<longrightarrow> (\<exists>df'. calculate_risk_score df = Inr (map (\<lambda>r. (wallet_id r, 500)) (rows df), df')))
   \<and> (\<exists>df'. calculate_risk_score \<lparr>rows = [r], score = s\<rparr> = Inr ([(wallet_id r, 500)], df'))"
proof -
  have batch: "\<exists>df'. calculate_risk_score df = Inr (map (\<lambda>r. (wallet_id r, 500)) (rows df), df')"
    if ne: "rows df \<noteq> []"
      and same: "\<forall>r \<in> set (rows df). \<forall>c. cell c r = cell c (hd (rows df))" for df
  proof -
    have "spec_score (set (rows df)) r = 500" for r
    proof (rule spec_score_constant_columns)
      show "set (rows df) \<noteq> {}" using ne by simp
      show "\<exists>v. cell c ` set (rows df) = {v}" for c
        using ne same by (rule identical_rows_columns)
    qed
    then show ?thesis
      by (simp add: calculate_risk_score_spec [OF ne])
  qed
  have "\<exists>df'. calculate_risk_score \<lparr>rows = [r], score = s\<rparr>
               = Inr (map (\<lambda>r. (wallet_id r, 500)) (rows \<lparr>rows = [r], score = s\<rparr>), df')"
    by (rule batch) simp_all
  then have single: "\<exists>df'. calculate_risk_score \<lparr>rows = [r], score = s\<rparr>
                           = Inr ([(wallet_id r, 500)], df')"
    by simp
  show ?thesis
  proof (intro conjI impI)
    assume a: "rows df \<noteq> [] \<and> (\<forall>r \<in> set (rows df). \<forall>c. cell c r = cell c (hd (rows df)))"
    from a have ne: "rows df \<noteq> []" ..
    from a have same: "\<forall>r \<in> set (rows df). \<forall>c. cell c r = cell c (hd (rows df))" ..
    from ne same
    show "\<exists>df'. calculate_risk_score df = Inr (map (\<lambda>r. (wallet_id r, 500)) (rows df), df')"
      by (rule batch)
  next
    show "\<exists>df'. calculate_risk_score \<lparr>rows = [r], score = s\<rparr> = Inr ([(wallet_id r, 500)], df')"
      by (rule single)
  qed
qed

text \<open>
  C5 on two records that differ in \<open>wallet_id\<close> only, and on the single record
  \<open>wallet_neg\<close>.
\<close>

theorem identical_records_score_500_witness:
  "rows (frame [wallet_b, wallet_b\<lparr>wallet_id := ''0xb2''\<rparr>]) \<noteq> []
   \<and> (\<exists>df'. calculate_risk_score (frame [wallet_b, wallet_b\<lparr>wallet_id := ''0xb2''\<rparr>])
               = Inr ([(''0xbb'', 500), (''0xb2'', 500)], df'))
   \<and> (\<exists>df'. calculate_risk_score \<lparr>rows = [wallet_neg], score = None\<rparr>
               = Inr ([(''0xee'', 500)], df'))"
proof -
  let ?df = "frame [wallet_b, wallet_b\<lparr>wallet_id := ''0xb2''\<rparr>]"
  note claim = identical_records_score_500 [of ?df wallet_neg None]
  have ne: "rows ?df \<noteq> []" by (simp add: frame_def)
  have same: "\<forall>r \<in> set (rows ?df). \<forall>c. cell c r = cell c (hd (rows ?df))"
  proof (intro ballI allI)
    fix r c
    assume "r \<in> set (rows ?df)"
    then have "r = wallet_b \<or> r = wallet_b\<lparr>wallet_id := ''0xb2''\<rparr>"
      by (simp add: frame_def)
    then show "cell c r = cell c (hd (rows ?df))"
      by (cases c) (auto simp: frame_def)
  qed
  from claim have "rows ?df \<noteq> [] \<and> (\<forall>r \<in> set (rows ?df). \<forall>c. cell c r = cell c (hd (rows ?df)))
      \<longrightarrow> (\<exists>df'. calculate_risk_score ?df = Inr (map (\<lambda>r. (wallet_id r, 500)) (rows ?df), df'))" ..
  with ne same
  have "\<exists>df'. calculate_risk_score ?df = Inr (map (\<lambda>r. (wallet_id r, 500)) (rows ?df), df')"
    by (elim impE) (rule conjI)
  then have two: "\<exists>df'. calculate_risk_score ?df = Inr ([(''0xbb'', 500), (''0xb2'', 500)], df')"
    by (simp add: frame_def wallet_b_def)
  from claim have "\<exists>df'. calculate_risk_score \<lparr>rows = [wallet_neg], score = None\<rparr>
               = Inr ([(wallet_id wallet_neg, 500)], df')" ..
  then have one: "\<exists>df'. calculate_risk_score \<lparr>rows = [wallet_neg], score = None\<rparr>
               = Inr ([(''0xee'', 500)], df')"
    by (simp add: wallet_neg_def)
  from ne two one show ?thesis by (intro conjI)
qed

subsection \<open>C7: more liquidations never raise the score\<close>

lemma Min_le_Max_fin:
  fixes V :: "rat set"
  assumes "finite V" "V \<noteq> {}"
  shows "Min V \<le> Max V"
proof -
  from assms(2) obtain x where x: "x \<in> V" by blast
  have "Min V \<le> x" using assms(1) x by (rule Min_le)
  also have "x \<le> Max V" using assms(1) x by (rule Max_ge)
  finally show ?thesis .
qed

lemma spec_normalize_mono:
  assumes "finite V" "V \<noteq> {}" "a \<le> b"
  shows "spec_normalize V a \<le> spec_normalize V b"
proof (cases "Max V = Min V")
  case True
  then show ?thesis by (simp add: spec_normalize_def)
next
  case False
  with Min_le_Max_fin [OF assms(1,2)] have pos: "0 \<le> Max V - Min V" by simp
  have "(a - Min V) / (Max V - Min V) \<le> (b - Min V) / (Max V - Min V)"
    using assms(3) pos by (intro divide_right_mono) simp_all
  with False show ?thesis by (simp only: spec_normalize_def if_False)
qed

lemma spec_rescale_mono:
  assumes "finite R" "R \<noteq> {}" "a \<le> b"
  shows "spec_rescale R a \<le> spec_rescale R b"
proof (cases "Max R = Min R")
  case True
  then show ?thesis by (simp add: spec_rescale_def)
next
  case False
  with Min_le_Max_fin [OF assms(1,2)] have pos: "0 \<le> Max R - Min R" by simp
  have "(a - Min R) / (Max R - Min R) \<le> (b - Min R) / (Max R - Min R)"
    using assms(3) pos by (intro divide_right_mono) simp_all
  then have "(a - Min R) / (Max R - Min R) * 900 + 100 \<le> (b - Min R) / (Max R - Min R) * 900 + 100"
    by (intro add_right_mono mult_right_mono) simp_all
  with False show ?thesis by (simp only: spec_rescale_def if_False)
qed

lemma spec_raw_liquidation_antimono:
  assumes fin: "finite B" and ne: "B \<noteq> {}"
    and same: "\<forall>c. c \<noteq> Liquidation_count \<longrightarrow> cell c a = cell c b"
    and liq: "liquidation_count b \<le> liquidation_count a"
  shows "spec_raw B a \<le> spec_raw B b"
proof -
  have eqs: "borrow_count a = borrow_count b" "repayment_ratio a = repayment_ratio b"
    "collateral_ratio a = collateral_ratio b" "total_volume a = total_volume b"
    "activity_level a = activity_level b" "no_compound_activity a = no_compound_activity b"
    using same [rule_format, of Borrow_count] same [rule_format, of Repayment_ratio]
      same [rule_format, of Collateral_ratio] same [rule_format, of Total_volume]
      same [rule_format, of Activity_level] same [rule_format, of No_compound_activity]
    by simp_all
  have "spec_normalize (liquidation_count ` B) (liquidation_count b)
        \<le> spec_normalize (liquidation_count ` B) (liquidation_count a)"
    using fin ne liq by (intro spec_normalize_mono) simp_all
  then show ?thesis
    by (simp add: spec_raw_def weights_def eqs cong: image_cong_simp)
qed

lemma spec_score_liquidation_antimono:
  assumes fin: "finite B" and ne: "B \<noteq> {}"
    and same: "\<forall>c. c \<noteq> Liquidation_count \<longrightarrow> cell c a = cell c b"
    and liq: "liquidation_count b \<le> liquidation_count a"
  shows "spec_score B a \<le> spec_score B b"
proof -
  have "spec_raw B a \<le> spec_raw B b"
    using fin ne same liq by (rule spec_raw_liquidation_antimono)
  then have "spec_rescale (spec_raw B ` B) (spec_raw B a) \<le> spec_rescale (spec_raw B ` B) (spec_raw B b)"
    using fin ne by (intro spec_rescale_mono) simp_all
  then show ?thesis unfolding spec_score_def by (rule floor_mono)
qed

text \<open>
  Claim C7. In any batch the Scorer accepts, take two records that agree on every
  feature but \<open>liquidation_count\<close>: the one with the higher \<open>liquidation_count\<close> gets a
  score less than or equal to the other's (the rest of the batch being what it is).
\<close>

theorem more_liquidations_never_score_higher:
  assumes run: "calculate_risk_score df = Inr (out, df')"
    and i: "i < length (rows df)" and j: "j < length (rows df)"
    and same: "\<forall>c. c \<noteq> Liquidation_count \<longrightarrow> cell c (rows df ! i) = cell c (rows df ! j)"
    and liq: "liquidation_count (rows df ! j) \<le> liquidation_count (rows df ! i)"
  shows "snd (out ! i) \<le> snd (out ! j)"
proof -
  let ?B = "set (rows df)"
  have ne: "rows df \<noteq> []" using i by auto
  have out: "out = map (\<lambda>r. (wallet_id r, spec_score ?B r)) (rows df)"
    using run calculate_risk_score_spec [OF ne] by simp
  have "spec_score ?B (rows df ! i) \<le> spec_score ?B (rows df ! j)"
    using same liq ne by (intro spec_score_liquidation_antimono) simp_all
  then show ?thesis using i j by (simp add: out)
qed

text \<open>
  C7 on the batch of \<open>wallet_a\<close>, \<open>wallet_b\<close> and \<open>wallet_d\<close>: \<open>wallet_d\<close> is \<open>wallet_b\<close> with
  three liquidations instead of one, and scores \<open>437\<close> against \<open>1000\<close>.
\<close>

lemma example_run_abd:
  "calculate_risk_score (frame [wallet_a, wallet_b, wallet_d])
   = Inr ([(''0xaa'', 100), (''0xbb'', 1000), (''0xdd'', 437)],
          \<lparr>rows = [wallet_a, wallet_b, wallet_d], score = Some [100, 1000, 437]\<rparr>)"
  by code_simp

theorem more_liquidations_never_score_higher_witness:
  "calculate_risk_score (frame [wallet_a, wallet_b, wallet_d])
     = Inr ([(''0xaa'', 100), (''0xbb'', 1000), (''0xdd'', 437)],
            \<lparr>rows = [wallet_a, wallet_b, wallet_d], score = Some [100, 1000, 437]\<rparr>)
   \<and> liquidation_count (rows (frame [wallet_a, wallet_b, wallet_d]) ! 1)
       \<le> liquidation_count (rows (frame [wallet_a, wallet_b, wallet_d]) ! 2)
   \<and> snd ([(''0xaa'', 100), (''0xbb'', 1000), (''0xdd'', 437::int)] ! 2)
       \<le> snd ([(''0xaa'', 100), (''0xbb'', 1000), (''0xdd'', 437::int)] ! 1)"
proof -
  let ?df = "frame [wallet_a, wallet_b, wallet_d]"
  have i: "2 < length (rows ?df)" and j: "1 < length (rows ?df)"
    by (simp_all add: frame_def)
  have same: "\<forall>c. c \<noteq> Liquidation_count \<longrightarrow> cell c (rows ?df ! 2) = cell c (rows ?df ! 1)"
  proof (intro allI impI)
    fix c :: column
    assume "c \<noteq> Liquidation_count"
    then show "cell c (rows ?df ! 2) = cell c (rows ?df ! 1)"
      by (cases c) (simp_all add: frame_def wallet_d_def)
  qed
  have liq: "liquidation_count (rows ?df ! 1) \<le> liquidation_count (rows ?df ! 2)"
    by (simp add: frame_def wallet_d_def wallet_b_def)
  have le: "snd ([(''0xaa'', 100), (''0xbb'', 1000), (''0xdd'', 437::int)] ! 2)
       \<le> snd ([(''0xaa'', 100), (''0xbb'', 1000), (''0xdd'', 437::int)] ! 1)"
    by (rule more_liquidations_never_score_higher [OF example_run_abd i j same liq])
  from example_run_abd liq le show ?thesis by (intro conjI)
qed

subsection \<open>C6: the order of the records does not matter\<close>

lemma mset_nonempty_transfer:
  assumes "mset ys = mset xs" "xs \<noteq> []"
  shows "ys \<noteq> []"
  using assms by auto

text \<open>
  Claim C6. Two batches holding the same records in any two orders are both scored,
  and give the same (wallet_id, score) pairs (as sets, and as multisets); and scoring
  again the frame the first run has left behind gives the first run's records once more.
\<close>

theorem scoring_is_permutation_invariant:
  assumes perm: "mset (rows df2) = mset (rows df1)" and ne1: "rows df1 \<noteq> []"
  shows "\<exists>out1 df1' out2 df2'.
           calculate_risk_score df1 = Inr (out1, df1')
           \<and> calculate_risk_score df2 = Inr (out2, df2')
           \<and> set out2 = set out1
           \<and> mset out2 = mset out1
           \<and> calculate_risk_score df1' = Inr (out1, df1')"
proof -
  let ?B = "set (rows df1)"
  let ?f = "\<lambda>r. (wallet_id r, spec_score ?B r)"
  let ?df1' = "df1\<lparr>score := Some (map (spec_score ?B) (rows df1))\<rparr>"
  let ?df2' = "df2\<lparr>score := Some (map (spec_score ?B) (rows df2))\<rparr>"
  have ne2: "rows df2 \<noteq> []" using perm ne1 by (rule mset_nonempty_transfer)
  have sets: "set (rows df2) = ?B" using perm by (rule mset_eq_setD)
  have r1: "calculate_risk_score df1 = Inr (map ?f (rows df1), ?df1')"
    using ne1 by (rule calculate_risk_score_spec)
  have r2: "calculate_risk_score df2 = Inr (map ?f (rows df2), ?df2')"
    using calculate_risk_score_spec [OF ne2] by (simp only: sets)
  have ne1': "rows ?df1' \<noteq> []" using ne1 by simp
  have again: "calculate_risk_score ?df1' = Inr (map ?f (rows df1), ?df1')"
    using calculate_risk_score_spec [OF ne1'] by simp
  have m: "mset (map ?f (rows df2)) = mset (map ?f (rows df1))"
    by (simp only: mset_map perm)
  have s: "set (map ?f (rows df2)) = set (map ?f (rows df1))"
    using m by (rule mset_eq_setD)
  show ?thesis
    by (rule exI [of _ "map ?f (rows df1)"], rule exI [of _ ?df1'],
        rule exI [of _ "map ?f (rows df2)"], rule exI [of _ ?df2'])
      (simp only: r1 r2 again m s simp_thms)
qed

text \<open>C6 on \<open>wallet_a\<close>, \<open>wallet_b\<close>, \<open>wallet_c\<close> and the same three rotated.\<close>

theorem scoring_is_permutation_invariant_witness:
  "mset (rows (frame [wallet_c, wallet_a, wallet_b])) = mset (rows (frame [wallet_a, wallet_b, wallet_c]))
   \<and> rows (frame [wallet_a, wallet_b, wallet_c]) \<noteq> []
   \<and> (\<exists>out1 df1' out2 df2'.
           calculate_risk_score (frame [wallet_a, wallet_b, wallet_c]) = Inr (out1, df1')
           \<and> calculate_risk_score (frame [wallet_c, wallet_a, wallet_b]) = Inr (out2, df2')
           \<and> set out2 = set out1
           \<and> mset out2 = mset out1
           \<and> calculate_risk_score df1' = Inr (out1, df1'))"
proof -
  have perm: "mset (rows (frame [wallet_c, wallet_a, wallet_b]))
              = mset (rows (frame [wallet_a, wallet_b, wallet_c]))"
    by (simp add: frame_def)
  have ne: "rows (frame [wallet_a, wallet_b, wallet_c]) \<noteq> []"
    by (simp add: frame_def)
  from perm ne scoring_is_permutation_invariant [OF perm ne] show ?thesis
    by (intro conjI)
qed

subsection \<open>C10: the clamp changes nothing\<close>






end
